theory Spec2Isabelle
  imports Complex_Main
begin

section \<open>The post route handlers (GET, PUT, DELETE on /api/posts/[id])\<close>

subsection \<open>JSON values and stored documents\<close>

text \<open>
  A request body is what \<^verbatim>\<open>request.json()\<close> returns: a JSON value. An object keeps its
  members in the order of the text; when a key occurs twice the later member wins, as in
  \<^verbatim>\<open>JSON.parse\<close>.
\<close>

datatype json =
    JNull
  | JBool bool
  | JNum real
  | JStr string
  | JArr "json list"
  | JObj "(string \<times> json) list"

text \<open>
  Reading a property of a parsed value, as the destructuring
  \<^verbatim>\<open>const { title, content } = data\<close> does. \<open>None\<close> is \<^verbatim>\<open>undefined\<close>. Only objects carry
  members named by the body; booleans, numbers, strings and arrays have no property
  \<^verbatim>\<open>title\<close> or \<^verbatim>\<open>content\<close>. Destructuring \<^verbatim>\<open>null\<close> throws; the handler models that
  case before it reads a property.
\<close>

fun get_prop :: "json \<Rightarrow> string \<Rightarrow> json option" where
  "get_prop (JObj members) k = map_of (rev members) k"
| "get_prop _ k = None"

text \<open>
  JavaScript truthiness, for the test \<^verbatim>\<open>!title || !content\<close>. A property that is
  \<^verbatim>\<open>undefined\<close> is falsy.
\<close>

fun truthy :: "json \<Rightarrow> bool" where
  "truthy JNull = False"
| "truthy (JBool b) = b"
| "truthy (JNum x) = (x \<noteq> 0)"
| "truthy (JStr s) = (s \<noteq> [])"
| "truthy (JArr xs) = True"
| "truthy (JObj ms) = True"

definition falsy :: "json option \<Rightarrow> bool" where
  "falsy v = (case v of None \<Rightarrow> True | Some j \<Rightarrow> \<not> truthy j)"

text \<open>
  A stored document is a set of named fields. A field holds a JSON value or a date
  (\<^verbatim>\<open>new Date()\<close>, as milliseconds since the epoch).
\<close>

datatype field_value = FJson json | FDate nat

type_synonym document = "string \<rightharpoonup> field_value"

subsection \<open>Object identifiers\<close>

text \<open>
  \<^verbatim>\<open>new ObjectId(id)\<close> of the database driver, applied to a string: the string is accepted
  when it consists of exactly 24 hexadecimal digits, and the constructor throws otherwise.
  Two strings that differ only in the case of their digits denote the same identifier, so
  the identifier is kept as the lower-case string.
\<close>

type_synonym objectid = string

definition is_hex :: "char \<Rightarrow> bool" where
  "is_hex c = (c \<in> set ''0123456789abcdefABCDEF'')"

definition lower_hex :: "char \<Rightarrow> char" where
  "lower_hex c = (case map_of (zip ''ABCDEF'' ''abcdef'') c of Some l \<Rightarrow> l | None \<Rightarrow> c)"

definition ObjectId :: "string \<Rightarrow> objectid option" where
  "ObjectId s = (if length s = 24 \<and> list_all is_hex s then Some (map lower_hex s) else None)"

text \<open>The collection \<^verbatim>\<open>posts\<close> of the database: documents by their \<^verbatim>\<open>_id\<close>.\<close>

type_synonym collection = "objectid \<rightharpoonup> document"

subsection \<open>Requests and responses\<close>

text \<open>
  \<^verbatim>\<open>request.nextUrl.pathname.split('/').pop()\<close>: the text after the last slash of the
  path (the whole path when it has no slash, the empty string when it ends in a slash).
\<close>

definition last_segment :: "string \<Rightarrow> string" where
  "last_segment pathname = rev (takeWhile (\<lambda>c. c \<noteq> CHR ''/'') (rev pathname))"

datatype body =
    ErrorBody string
  | SuccessBody
  | PostBody document

record response =
  status :: nat
  body :: body

definition error_response :: "string \<Rightarrow> nat \<Rightarrow> response" where
  "error_response msg code = \<lparr>status = code, body = ErrorBody msg\<rparr>"

subsection \<open>The handlers\<close>

text \<open>
  Each handler is one \<^verbatim>\<open>try\<close> block whose \<^verbatim>\<open>catch\<close> answers 500. The exceptions of the
  block are the ones written out below: the identifier constructor throwing, the body not
  being JSON (\<open>None\<close> for the body) and the destructuring of \<^verbatim>\<open>null\<close>. The database client
  itself is taken to answer. A handler returns its response and the collection after it.
\<close>

definition GET :: "collection \<Rightarrow> string \<Rightarrow> response" where
  "GET db pathname =
     (let id = last_segment pathname in
      if id = [] then error_response ''Post ID is required'' 400
      else case ObjectId id of
             None \<Rightarrow> error_response ''Failed to fetch post'' 500
           | Some oid \<Rightarrow>
               (case db oid of
                  None \<Rightarrow> error_response ''Post not found'' 404
                | Some post \<Rightarrow> \<lparr>status = 200, body = PostBody post\<rparr>))"

definition DELETE :: "collection \<Rightarrow> string \<Rightarrow> response \<times> collection" where
  "DELETE db pathname =
     (let id = last_segment pathname in
      if id = [] then (error_response ''Post ID is required'' 400, db)
      else case ObjectId id of
             None \<Rightarrow> (error_response ''Failed to delete post'' 500, db)
           | Some oid \<Rightarrow>
               (case db oid of
                  None \<Rightarrow> (error_response ''Post not found'' 404, db)
                | Some post \<Rightarrow> (\<lparr>status = 200, body = SuccessBody\<rparr>, db(oid := None))))"

text \<open>
  \<^verbatim>\<open>updateOne({_id}, {$set: {title, content, editedAt: new Date()}})\<close> on a matched
  document: the three named fields are written, the others stay. The handler reaches the
  update only with a title and a content that are defined, an undefined one being falsy.
\<close>

definition set_fields :: "document \<Rightarrow> json option \<Rightarrow> json option \<Rightarrow> nat \<Rightarrow> document" where
  "set_fields doc title content now =
     doc(''title'' := map_option FJson title,
         ''content'' := map_option FJson content,
         ''editedAt'' \<mapsto> FDate now)"

definition PUT :: "collection \<Rightarrow> string \<Rightarrow> json option \<Rightarrow> nat \<Rightarrow> response \<times> collection" where
  "PUT db pathname request_json now =
     (let id = last_segment pathname in
      if id = [] then (error_response ''Post ID is required'' 400, db)
      else case request_json of
             None \<Rightarrow> (error_response ''Failed to update post'' 500, db)
           | Some data \<Rightarrow>
               if data = JNull then (error_response ''Failed to update post'' 500, db)
               else
                 (let title = get_prop data ''title'';
                      content = get_prop data ''content''
                  in if falsy title \<or> falsy content
                     then (error_response ''Title and content are required'' 400, db)
                     else case ObjectId id of
                            None \<Rightarrow> (error_response ''Failed to update post'' 500, db)
                          | Some oid \<Rightarrow>
                              (case db oid of
                                 None \<Rightarrow> (error_response ''Post not found'' 404, db)
                               | Some post \<Rightarrow>
                                   (\<lparr>status = 200, body = SuccessBody\<rparr>,
                                    db(oid \<mapsto> set_fields post title content now)))))"

section \<open>The post list component\<close>

subsection \<open>Posts as the component reads them\<close>

text \<open>A vote direction is one of the literals \<^verbatim>\<open>1\<close> and \<^verbatim>\<open>-1\<close>.\<close>

datatype vote_dir = Up | Down

fun vote_value :: "vote_dir \<Rightarrow> int" where
  "vote_value Up = 1"
| "vote_value Down = - 1"

text \<open>
  Modelled from the spec: the type \<^verbatim>\<open>Post\<close> of \<^verbatim>\<open>@/types\<close> is not among the sources. The
  records below hold the fields the component reads, with the data model of the
  specification: a voter record is a user identifier and a vote value, a post has an
  identifier, title, content, author reference, community reference (slug and title), a
  vote count, a list of voter records and a creation timestamp. A post without a voter
  list is read like one with the empty list (\<^verbatim>\<open>post.voters?.find\<close>); a community slug may
  be undefined.
\<close>

record Voter =
  userId :: string
  vote :: vote_dir

record Author =
  author_id :: string
  username :: string

record Post =
  post_id :: string
  title :: string
  content :: string
  votes :: int
  voters :: "Voter list"
  author :: "Author option"
  dramaSlug :: "string option"
  dramaTitle :: "string option"
  createdAt :: nat

subsection \<open>Properties, state and effects\<close>

datatype viewMode = AllPosts | MyPosts | Drama

record PostListProps =
  viewMode :: viewMode
  currentUser_id :: string
  refreshKey :: nat
  prop_dramaSlug :: "string option"

record PostListState =
  posts :: "Post list"
  loading :: bool
  userVotes :: "string \<rightharpoonup> vote_dir"
  dramaColors :: "string \<rightharpoonup> json"
  editingPost :: "Post option"
  editTitle :: string
  editContent :: string

text \<open>
  What the component does to the outside: the requests it issues, the lines it logs, the
  alerts it raises. A handler returns the state after it and its effects in order.
\<close>

datatype request =
    GetPosts string
  | GetMembership string string
  | PostVote string string "vote_dir option"
  | PutPost string string string
  | DeletePost string

datatype effect =
    Request request
  | ConsoleError string
  | Alert string

text \<open>
  What the outside answers. A membership lookup either throws (the request fails, or its
  body is not JSON, or is \<^verbatim>\<open>null\<close>) or yields the \<^verbatim>\<open>color\<close> member of its body: a JSON
  value, or undefined. The list request either throws or yields the array of posts. A mutation
  request either throws or responds, with \<^verbatim>\<open>response.ok\<close> true or false.
\<close>

datatype color_lookup = LookupThrows | LookupColor "json option"

datatype mutation_result = Rejected | Responded bool

record Env =
  get_posts :: "string \<Rightarrow> Post list option"
  get_membership :: "string \<Rightarrow> string \<Rightarrow> color_lookup"

subsection \<open>fetchPosts\<close>

definition posts_url :: "PostListProps \<Rightarrow> string" where
  "posts_url props =
     (if viewMode props = MyPosts then ''/api/posts'' @ ''?userId='' @ currentUser_id props
      else case prop_dramaSlug props of
             Some slug \<Rightarrow>
               if viewMode props = Drama \<and> slug \<noteq> [] then ''/api/posts'' @ ''?dramaSlug='' @ slug
               else ''/api/posts''
           | None \<Rightarrow> ''/api/posts'')"

text \<open>
  \<^verbatim>\<open>[...new Set(data.map(post => post.dramaSlug))]\<close>: the slugs of the posts, each once, in
  the order of their first occurrence.
\<close>

definition uniqueDramas :: "Post list \<Rightarrow> string option list" where
  "uniqueDramas data = rev (remdups (rev (map dramaSlug data)))"

text \<open>The slugs that pass \<^verbatim>\<open>if (slug)\<close>: defined and not empty.\<close>

fun truthy_slugs :: "string option list \<Rightarrow> string list" where
  "truthy_slugs [] = []"
| "truthy_slugs (None # rest) = truthy_slugs rest"
| "truthy_slugs (Some slug # rest) = (if slug = [] then truthy_slugs rest else slug # truthy_slugs rest)"

text \<open>
  \<^verbatim>\<open>obj[key] = value\<close> on an object made by the literal \<^verbatim>\<open>{}\<close>. The maps of the model hold
  the own entries of such an object, an entry that is undefined being no entry. The
  assignment writes an own entry under every key but \<^verbatim>\<open>__proto__\<close>: that key reaches the
  setter inherited from \<^verbatim>\<open>Object.prototype\<close>, which writes no entry (it ignores a string, a
  number and undefined, and takes an object or \<^verbatim>\<open>null\<close> as the new prototype). A key without
  an own entry reads as undefined or as an inherited member, never as a vote or as a
  color its lookup returned.
\<close>

definition assign :: "(string \<rightharpoonup> 'a) \<Rightarrow> string \<Rightarrow> 'a option \<Rightarrow> (string \<rightharpoonup> 'a)" where
  "assign obj key v = (if key = ''__proto__'' then obj else obj(key := v))"

text \<open>
  \<^verbatim>\<open>colors[slug] = color\<close> for every looked-up slug. The slugs are distinct, so the order
  in which the concurrent lookups finish does not show in the result. An undefined color
  is kept as no color.
\<close>

fun resolve_colors :: "(string \<Rightarrow> color_lookup) \<Rightarrow> string list \<Rightarrow> (string \<rightharpoonup> json) \<Rightarrow> (string \<rightharpoonup> json)" where
  "resolve_colors lookup [] colors = colors"
| "resolve_colors lookup (slug # rest) colors =
     (case lookup slug of
        LookupColor color \<Rightarrow> resolve_colors lookup rest (assign colors slug color)
      | LookupThrows \<Rightarrow> resolve_colors lookup rest colors)"

text \<open>
  The loop over the posts that fills \<^verbatim>\<open>votes\<close>: the first voter record of the current user
  in a post gives the entry of that post, by \<^verbatim>\<open>votes[post._id] = userVote.vote\<close>.
\<close>

fun derive_votes :: "string \<Rightarrow> Post list \<Rightarrow> (string \<rightharpoonup> vote_dir) \<Rightarrow> (string \<rightharpoonup> vote_dir)" where
  "derive_votes uid [] acc = acc"
| "derive_votes uid (post # rest) acc =
     (case find (\<lambda>voter. userId voter = uid) (voters post) of
        Some userVote \<Rightarrow> derive_votes uid rest (assign acc (post_id post) (Some (vote userVote)))
      | None \<Rightarrow> derive_votes uid rest acc)"

text \<open>
  \<^verbatim>\<open>Promise.all\<close> starts every lookup and rejects when one of them throws; the \<^verbatim>\<open>catch\<close> of
  \<^verbatim>\<open>fetchPosts\<close> then takes over, after \<^verbatim>\<open>setPosts\<close> and before \<^verbatim>\<open>setDramaColors\<close> and
  \<^verbatim>\<open>setUserVotes\<close>. \<^verbatim>\<open>finally\<close> resets \<^verbatim>\<open>loading\<close> on every path. The function never throws.
\<close>

definition fetchPosts :: "Env \<Rightarrow> PostListProps \<Rightarrow> PostListState \<Rightarrow> PostListState \<times> effect list" where
  "fetchPosts env props st =
     (let url = posts_url props;
          uid = currentUser_id props
      in case get_posts env url of
           None \<Rightarrow>
             (st\<lparr>loading := False\<rparr>,
              [Request (GetPosts url), ConsoleError ''Error fetching posts:''])
         | Some data \<Rightarrow>
             if viewMode props = AllPosts then
               (let slugs = truthy_slugs (uniqueDramas data);
                    lookups = map (\<lambda>slug. Request (GetMembership slug uid)) slugs
                in if list_ex (\<lambda>slug. get_membership env slug uid = LookupThrows) slugs
                   then (st\<lparr>posts := data, loading := False\<rparr>,
                         Request (GetPosts url) # lookups @ [ConsoleError ''Error fetching posts:''])
                   else (st\<lparr>posts := data,
                            dramaColors := resolve_colors (\<lambda>slug. get_membership env slug uid) slugs Map.empty,
                            userVotes := derive_votes uid data Map.empty,
                            loading := False\<rparr>,
                         Request (GetPosts url) # lookups))
             else
               (st\<lparr>posts := data, userVotes := derive_votes uid data Map.empty, loading := False\<rparr>,
                [Request (GetPosts url)]))"

subsection \<open>Editing and deleting\<close>

definition handleEdit :: "PostListState \<Rightarrow> Post \<Rightarrow> PostListState" where
  "handleEdit st post = st\<lparr>editingPost := Some post, editTitle := title post, editContent := content post\<rparr>"

definition handleCancelEdit :: "PostListState \<Rightarrow> PostListState" where
  "handleCancelEdit st = st\<lparr>editingPost := None, editTitle := [], editContent := []\<rparr>"

definition handleSaveEdit ::
    "Env \<Rightarrow> mutation_result \<Rightarrow> PostListProps \<Rightarrow> PostListState \<Rightarrow> string \<Rightarrow> PostListState \<times> effect list" where
  "handleSaveEdit env result props st postId =
     (let put = Request (PutPost postId (editTitle st) (editContent st))
      in if result = Responded True then
           (let (st', effects) =
                  fetchPosts env props (st\<lparr>editingPost := None, editTitle := [], editContent := []\<rparr>)
            in (st', put # effects))
         else (st, [put, ConsoleError ''Error updating post:'', Alert ''Failed to update post'']))"

text \<open>\<^verbatim>\<open>confirmed\<close> is the answer of the user to the confirmation dialog.\<close>

definition handleDelete ::
    "Env \<Rightarrow> bool \<Rightarrow> mutation_result \<Rightarrow> PostListProps \<Rightarrow> PostListState \<Rightarrow> string \<Rightarrow> PostListState \<times> effect list" where
  "handleDelete env confirmed result props st postId =
     (if \<not> confirmed then (st, [])
      else if result = Responded True then
        (let (st', effects) = fetchPosts env props st
         in (st', Request (DeletePost postId) # effects))
      else (st, [Request (DeletePost postId), ConsoleError ''Error deleting post:'', Alert ''Failed to delete post'']))"

subsection \<open>Voting\<close>

text \<open>\<^verbatim>\<open>userVotes[postId] === vote ? null : vote\<close>\<close>

definition newVote :: "(string \<rightharpoonup> vote_dir) \<Rightarrow> string \<Rightarrow> vote_dir \<Rightarrow> vote_dir option" where
  "newVote shown postId v = (if shown postId = Some v then None else Some v)"

definition handleVote ::
    "Env \<Rightarrow> mutation_result \<Rightarrow> PostListProps \<Rightarrow> PostListState \<Rightarrow> string \<Rightarrow> vote_dir \<Rightarrow> PostListState \<times> effect list" where
  "handleVote env result props st postId v =
     (let post = Request (PostVote postId (currentUser_id props) (newVote (userVotes st) postId v))
      in if result = Responded True then
           (let (st', effects) = fetchPosts env props st
            in (st', post # effects))
         else (st, [post, ConsoleError ''Error voting:'']))"

section \<open>The vote mutation endpoint\<close>

text \<open>
  Modelled from the spec: the handler of \<^verbatim>\<open>POST /api/posts/vote\<close> is not among the
  sources. Its contract, for a post, a user and a vote that is a direction or \<^verbatim>\<open>null\<close>:
  \<^item> \<^verbatim>\<open>null\<close>: the voter record of the user is removed if present, and the count is
    decremented by the value of the removed record (0 if absent);
  \<^item> a vote that differs from the recorded vote of the user, or no recorded vote: the voter
    record is replaced or inserted with the new value, and the count is adjusted by the
    new value minus the old one, the old one being 0 without a prior record;
  \<^item> a vote equal to the recorded one: nothing changes;
  \<^item> the request fails when the post does not exist.
  The list and the count change in one step.
\<close>

definition recorded :: "string \<Rightarrow> Voter list \<Rightarrow> Voter option" where
  "recorded uid records = find (\<lambda>voter. userId voter = uid) records"

definition prior_value :: "string \<Rightarrow> Voter list \<Rightarrow> int" where
  "prior_value uid records =
     (case recorded uid records of None \<Rightarrow> 0 | Some voter \<Rightarrow> vote_value (vote voter))"

fun remove_voter :: "string \<Rightarrow> Voter list \<Rightarrow> Voter list" where
  "remove_voter uid [] = []"
| "remove_voter uid (voter # rest) =
     (if userId voter = uid then rest else voter # remove_voter uid rest)"

fun put_voter :: "string \<Rightarrow> vote_dir \<Rightarrow> Voter list \<Rightarrow> Voter list" where
  "put_voter uid v [] = [\<lparr>userId = uid, vote = v\<rparr>]"
| "put_voter uid v (voter # rest) =
     (if userId voter = uid then voter\<lparr>vote := v\<rparr> # rest else voter # put_voter uid v rest)"

definition cast_vote :: "string \<Rightarrow> vote_dir option \<Rightarrow> Post \<Rightarrow> Post" where
  "cast_vote uid v post =
     (case v of
        None \<Rightarrow>
          post\<lparr>voters := remove_voter uid (voters post),
               votes := votes post - prior_value uid (voters post)\<rparr>
      | Some d \<Rightarrow>
          if map_option vote (recorded uid (voters post)) = Some d then post
          else post\<lparr>voters := put_voter uid d (voters post),
                    votes := votes post + (vote_value d - prior_value uid (voters post))\<rparr>)"

datatype vote_error = PostNotFound

type_synonym post_store = "string \<rightharpoonup> Post"

definition vote_endpoint :: "post_store \<Rightarrow> string \<Rightarrow> string \<Rightarrow> vote_dir option \<Rightarrow> vote_error + post_store" where
  "vote_endpoint db postId uid v =
     (case db postId of
        None \<Rightarrow> Inl PostNotFound
      | Some post \<Rightarrow> Inr (db(postId \<mapsto> cast_vote uid v post)))"

text \<open>
  A sequence of vote requests, each a post, a user and a vote: the store after every
  request, in order. A request that fails leaves the store as it was.
\<close>

fun vote_trace :: "post_store \<Rightarrow> (string \<times> string \<times> vote_dir option) list \<Rightarrow> post_store list" where
  "vote_trace db [] = []"
| "vote_trace db ((postId, uid, v) # rest) =
     (case vote_endpoint db postId uid v of
        Inl err \<Rightarrow> db # vote_trace db rest
      | Inr db' \<Rightarrow> db' # vote_trace db' rest)"

text \<open>The vote count invariant of a stored post: the count is the sum of the voter values.\<close>

definition tally :: "Voter list \<Rightarrow> int" where
  "tally records = sum_list (map (\<lambda>voter. vote_value (vote voter)) records)"

definition count_agrees :: "post_store \<Rightarrow> string \<Rightarrow> bool" where
  "count_agrees db postId =
     (case db postId of None \<Rightarrow> False | Some post \<Rightarrow> votes post = tally (voters post))"

section \<open>The component and the endpoints together\<close>










section \<open>Example inputs\<close>

text \<open>The state the component starts in: the initial values of its \<^verbatim>\<open>useState\<close> calls.\<close>

definition initial_state :: PostListState where
  "initial_state = \<lparr>posts = [], loading = True, userVotes = Map.empty, dramaColors = Map.empty,
                     editingPost = None, editTitle = [], editContent = []\<rparr>"

definition example_props :: PostListProps where
  "example_props = \<lparr>viewMode = AllPosts, currentUser_id = ''u1'', refreshKey = 0, prop_dramaSlug = None\<rparr>"

definition example_post :: "string \<Rightarrow> string \<Rightarrow> Post" where
  "example_post pid slug =
     \<lparr>post_id = pid, title = ''A title'', content = ''Some text'', votes = 0, voters = [],
      author = Some \<lparr>author_id = ''u2'', username = ''bo''\<rparr>,
      dramaSlug = Some slug, dramaTitle = Some slug, createdAt = 0\<rparr>"

text \<open>Three posts of three communities.\<close>

definition three_posts :: "Post list" where
  "three_posts = [example_post ''p1'' ''a'', example_post ''p2'' ''b'', example_post ''p3'' ''c'']"

text \<open>
  An environment that lists the three posts and knows the colors of the communities
  \<^verbatim>\<open>a\<close> and \<^verbatim>\<open>c\<close>; what the lookup of \<^verbatim>\<open>b\<close> does is the parameter.
\<close>

definition lookup_b :: "color_lookup \<Rightarrow> string \<Rightarrow> string \<Rightarrow> color_lookup" where
  "lookup_b answer slug uid =
     (if slug = ''b'' then answer
      else if slug = ''a'' then LookupColor (Some (JStr ''red''))
      else LookupColor (Some (JStr ''blue'')))"

definition example_env :: "color_lookup \<Rightarrow> Env" where
  "example_env answer = \<lparr>get_posts = (\<lambda>url. Some three_posts), get_membership = lookup_b answer\<rparr>"

text \<open>A draft being edited.\<close>

definition editing_state :: PostListState where
  "editing_state = initial_state\<lparr>posts := three_posts, loading := False,
                                 editingPost := Some (example_post ''p1'' ''a''),
                                 editTitle := ''New title'', editContent := ''New text''\<rparr>"

text \<open>A collection with one document, and request bodies.\<close>

definition example_collection :: collection where
  "example_collection = Map.empty(''507f1f77bcf86cd799439011'' \<mapsto>
      Map.empty(''title'' \<mapsto> FJson (JStr ''old''), ''content'' \<mapsto> FJson (JStr ''text''),
                ''votes'' \<mapsto> FJson (JNum 3)))"

definition empty_title_body :: json where
  "empty_title_body = JObj [(''title'', JStr []), (''content'', JStr ''new text'')]"

definition good_body :: json where
  "good_body = JObj [(''title'', JStr ''new''), (''content'', JStr ''new text'')]"

text \<open>A store with one post, without votes.\<close>

definition example_store :: post_store where
  "example_store = Map.empty(''p1'' \<mapsto> example_post ''p1'' ''a'')"




section \<open>Properties of the route handlers\<close>

lemma last_segment_example:
  "last_segment ''/api/posts/507f1f77bcf86cd799439011'' = ''507f1f77bcf86cd799439011''"
  by (simp add: last_segment_def)

lemma last_segment_other:
  "last_segment ''/api/posts/507f1f77bcf86cd799439012'' = ''507f1f77bcf86cd799439012''"
  by (simp add: last_segment_def)

lemma last_segment_abc: "last_segment ''/api/posts/abc'' = ''abc''"
  by (simp add: last_segment_def)

lemma ObjectId_example: "ObjectId ''507f1f77bcf86cd799439011'' = Some ''507f1f77bcf86cd799439011''"
  by (simp add: ObjectId_def is_hex_def lower_hex_def)

lemma ObjectId_other: "ObjectId ''507f1f77bcf86cd799439012'' = Some ''507f1f77bcf86cd799439012''"
  by (simp add: ObjectId_def is_hex_def lower_hex_def)

lemma ObjectId_upper_case: "ObjectId ''507F1F77BCF86CD799439011'' = ObjectId ''507f1f77bcf86cd799439011''"
  by (simp add: ObjectId_def is_hex_def lower_hex_def)

lemma ObjectId_abc: "ObjectId ''abc'' = None"
  by (simp add: ObjectId_def)

lemma ObjectId_accepted_not_empty: "ObjectId s = Some oid \<Longrightarrow> s \<noteq> []"
  by (auto simp: ObjectId_def split: if_splits)

text \<open>A handler that does not answer 200 leaves the collection as it was.\<close>

lemma PUT_not_ok_unchanged:
  "status (fst (PUT db pathname request_json now)) \<noteq> 200 \<Longrightarrow> snd (PUT db pathname request_json now) = db"
  by (auto simp: PUT_def Let_def error_response_def split: option.splits if_splits)

lemma DELETE_not_ok_unchanged:
  "status (fst (DELETE db pathname)) \<noteq> 200 \<Longrightarrow> snd (DELETE db pathname) = db"
  by (auto simp: DELETE_def Let_def error_response_def split: option.splits if_splits)

text \<open>A body that is not JSON, or is \<^verbatim>\<open>null\<close>, is answered 500 whatever the identifier.\<close>

lemma PUT_unreadable_body:
  "last_segment pathname \<noteq> [] \<Longrightarrow> request_json = None \<or> request_json = Some JNull \<Longrightarrow>
   PUT db pathname request_json now = (error_response ''Failed to update post'' 500, db)"
  by (auto simp: PUT_def Let_def)

text \<open>
  C6, as amended: a PUT whose body is a JSON value other than \<^verbatim>\<open>null\<close> with an empty or missing
  title, or an empty or missing content, is answered 400 and the stored posts are left
  unchanged. A body that is the literal \<^verbatim>\<open>null\<close>, or is not JSON, is answered 500 when the
  identifier is not empty (400 when it is), and the stored posts are left unchanged as
  well. A member that is missing, empty, \<^verbatim>\<open>null\<close>, \<^verbatim>\<open>false\<close> or 0 is falsy.
\<close>

theorem PUT_rejects_empty_fields:
  assumes "falsy (get_prop data ''title'') \<or> falsy (get_prop data ''content'')"
  shows "status (fst (PUT db pathname (Some data) now))
           = (if data = JNull \<and> last_segment pathname \<noteq> [] then 500 else 400)
       \<and> snd (PUT db pathname (Some data) now) = db
       \<and> status (fst (PUT db pathname None now)) = (if last_segment pathname = [] then 400 else 500)
       \<and> snd (PUT db pathname None now) = db"
  using assms by (auto simp: PUT_def Let_def error_response_def)

theorem PUT_rejects_empty_fields_witness:
  "falsy (get_prop empty_title_body ''title'')
   \<and> status (fst (PUT example_collection ''/api/posts/507f1f77bcf86cd799439011''
                    (Some empty_title_body) 1700000000000)) = 400
   \<and> snd (PUT example_collection ''/api/posts/507f1f77bcf86cd799439011''
                    (Some empty_title_body) 1700000000000) = example_collection"
proof -
  have a: "empty_title_body \<noteq> JNull"
    by (simp add: empty_title_body_def)
  have b: "falsy (get_prop empty_title_body ''title'')"
    by (simp add: empty_title_body_def falsy_def)
  from PUT_rejects_empty_fields [OF disjI1 [OF b],
      of example_collection "''/api/posts/507f1f77bcf86cd799439011''" 1700000000000] a b
  show ?thesis by simp
qed

text \<open>
  C6 as stated fails: the body \<^verbatim>\<open>null\<close> has no title, and the PUT is answered 500.
\<close>

theorem PUT_null_body_counterexample:
  "falsy (get_prop JNull ''title'')
   \<and> status (fst (PUT example_collection ''/api/posts/507f1f77bcf86cd799439011''
                    (Some JNull) 1700000000000)) = 500"
  by (simp add: falsy_def PUT_def last_segment_example error_response_def)

text \<open>
  C8, as amended: a DELETE whose identifier is well formed (24 hexadecimal digits) and
  names no stored post returns the response 404 \<^verbatim>\<open>Post not found\<close> as a normal value, and
  the collection is unchanged.
\<close>

theorem DELETE_missing_post:
  assumes "ObjectId (last_segment pathname) = Some oid" and "db oid = None"
  shows "DELETE db pathname = (error_response ''Post not found'' 404, db)"
proof -
  from assms(1) have "last_segment pathname \<noteq> []"
    by (rule ObjectId_accepted_not_empty)
  with assms show ?thesis by (simp add: DELETE_def Let_def)
qed

theorem DELETE_missing_post_witness:
  "ObjectId (last_segment ''/api/posts/507f1f77bcf86cd799439012'') = Some ''507f1f77bcf86cd799439012''
   \<and> example_collection ''507f1f77bcf86cd799439012'' = None
   \<and> DELETE example_collection ''/api/posts/507f1f77bcf86cd799439012''
       = (error_response ''Post not found'' 404, example_collection)"
proof -
  have a: "ObjectId (last_segment ''/api/posts/507f1f77bcf86cd799439012'') = Some ''507f1f77bcf86cd799439012''"
    by (simp add: last_segment_other ObjectId_other)
  have b: "example_collection ''507f1f77bcf86cd799439012'' = None"
    by (simp add: example_collection_def)
  from DELETE_missing_post [of "''/api/posts/507f1f77bcf86cd799439012''" "''507f1f77bcf86cd799439012''"
      example_collection, OF a b] a b
  show ?thesis by simp
qed

text \<open>
  C8 as stated fails: the identifier \<^verbatim>\<open>abc\<close> names no post of the empty collection, and the
  DELETE is answered 500.
\<close>

theorem DELETE_malformed_id_counterexample:
  "status (fst (DELETE Map.empty ''/api/posts/abc'')) = 500"
  by (simp add: DELETE_def last_segment_abc ObjectId_abc error_response_def)

text \<open>
  C9: a PUT that succeeds writes the fields \<^verbatim>\<open>title\<close>, \<^verbatim>\<open>content\<close> and \<^verbatim>\<open>editedAt\<close> of the
  post it names and nothing else: every other field of that post keeps its value, and
  every other post is unchanged.
\<close>

theorem PUT_success_frame:
  assumes "status (fst (PUT db pathname request_json now)) = 200"
  shows "\<exists>oid post post'.
           ObjectId (last_segment pathname) = Some oid \<and> db oid = Some post
           \<and> snd (PUT db pathname request_json now) oid = Some post'
           \<and> (\<forall>field. field \<notin> {''title'', ''content'', ''editedAt''} \<longrightarrow> post' field = post field)
           \<and> (\<forall>other. other \<noteq> oid \<longrightarrow> snd (PUT db pathname request_json now) other = db other)"
  using assms
  by (auto simp: PUT_def Let_def error_response_def set_fields_def split: option.splits if_splits)

theorem PUT_success_frame_witness:
  "status (fst (PUT example_collection ''/api/posts/507f1f77bcf86cd799439011'' (Some good_body) 1700000000000)) = 200
   \<and> (\<exists>oid post post'.
           ObjectId (last_segment ''/api/posts/507f1f77bcf86cd799439011'') = Some oid
           \<and> example_collection oid = Some post
           \<and> snd (PUT example_collection ''/api/posts/507f1f77bcf86cd799439011'' (Some good_body) 1700000000000) oid = Some post'
           \<and> (\<forall>field. field \<notin> {''title'', ''content'', ''editedAt''} \<longrightarrow> post' field = post field)
           \<and> (\<forall>other. other \<noteq> oid \<longrightarrow>
                 snd (PUT example_collection ''/api/posts/507f1f77bcf86cd799439011'' (Some good_body) 1700000000000) other
                   = example_collection other))"
proof -
  have a: "status (fst (PUT example_collection ''/api/posts/507f1f77bcf86cd799439011''
                          (Some good_body) 1700000000000)) = 200"
    by (simp add: PUT_def last_segment_example ObjectId_example good_body_def falsy_def
        example_collection_def)
  from a PUT_success_frame [OF a] show ?thesis by (rule conjI)
qed

text \<open>
  C10, as amended: for a non-empty identifier that the identifier constructor rejects,
  GET and DELETE answer 500; PUT answers 500 too, unless its body is a JSON value other
  than \<^verbatim>\<open>null\<close> with a falsy title or content, which is answered 400 before the identifier
  is looked at. None of them changes the collection.
\<close>

theorem malformed_id_status:
  assumes "last_segment pathname \<noteq> []" and "ObjectId (last_segment pathname) = None"
  shows "status (GET db pathname) = 500
       \<and> DELETE db pathname = (error_response ''Failed to delete post'' 500, db)
       \<and> snd (PUT db pathname request_json now) = db
       \<and> status (fst (PUT db pathname request_json now)) =
           (case request_json of
              None \<Rightarrow> 500
            | Some data \<Rightarrow>
                if data \<noteq> JNull \<and> (falsy (get_prop data ''title'') \<or> falsy (get_prop data ''content''))
                then 400 else 500)"
  using assms
  by (auto simp: GET_def DELETE_def PUT_def Let_def error_response_def split: option.splits)

theorem malformed_id_status_witness:
  "last_segment ''/api/posts/abc'' \<noteq> [] \<and> ObjectId (last_segment ''/api/posts/abc'') = None
   \<and> status (GET example_collection ''/api/posts/abc'') = 500
   \<and> status (fst (DELETE example_collection ''/api/posts/abc'')) = 500
   \<and> status (fst (PUT example_collection ''/api/posts/abc'' (Some good_body) 1700000000000)) = 500"
proof -
  have a: "last_segment ''/api/posts/abc'' \<noteq> []"
    by (simp add: last_segment_abc)
  have b: "ObjectId (last_segment ''/api/posts/abc'') = None"
    by (simp add: last_segment_abc ObjectId_abc)
  from malformed_id_status [OF a b, of example_collection "Some good_body" 1700000000000] a b
  show ?thesis by (simp add: good_body_def falsy_def error_response_def)
qed

text \<open>
  C10 as stated fails for PUT: with the identifier \<^verbatim>\<open>abc\<close> and an empty title the answer
  is 400.
\<close>

theorem PUT_malformed_id_counterexample:
  "ObjectId (last_segment ''/api/posts/abc'') = None
   \<and> status (fst (PUT example_collection ''/api/posts/abc'' (Some empty_title_body) 1700000000000)) = 400"
  by (simp add: PUT_def last_segment_abc ObjectId_abc empty_title_body_def falsy_def error_response_def)

section \<open>Properties of the vote mutation endpoint\<close>

lemma tally_remove_voter: "tally (remove_voter uid rs) = tally rs - prior_value uid rs"
  by (induction rs) (auto simp: tally_def prior_value_def recorded_def)

lemma tally_put_voter: "tally (put_voter uid d rs) = tally rs + (vote_value d - prior_value uid rs)"
  by (induction rs) (auto simp: tally_def prior_value_def recorded_def)

lemma cast_vote_keeps_count:
  "votes post = tally (voters post) \<Longrightarrow> votes (cast_vote uid v post) = tally (voters (cast_vote uid v post))"
  by (cases v) (auto simp: cast_vote_def tally_remove_voter tally_put_voter)

lemma vote_endpoint_keeps_count:
  assumes "count_agrees db pid" and "vote_endpoint db postId uid v = Inr db'"
  shows "count_agrees db' pid"
  using assms
  by (auto simp: count_agrees_def vote_endpoint_def cast_vote_keeps_count split: option.splits if_splits)

text \<open>At most one voter record per user: the endpoint keeps the user identifiers distinct.\<close>

lemma userIds_remove_voter: "set (map userId (remove_voter uid rs)) \<subseteq> set (map userId rs)"
  by (induction rs) auto

lemma distinct_remove_voter:
  "distinct (map userId rs) \<Longrightarrow> distinct (map userId (remove_voter uid rs))"
proof (induction rs)
  case Nil
  then show ?case by simp
next
  case (Cons r rest)
  with userIds_remove_voter [of uid rest] show ?case by auto
qed

lemma userIds_put_voter: "set (map userId (put_voter uid d rs)) = insert uid (set (map userId rs))"
  by (induction rs) auto

lemma distinct_put_voter:
  "distinct (map userId rs) \<Longrightarrow> distinct (map userId (put_voter uid d rs))"
proof (induction rs)
  case Nil
  then show ?case by simp
next
  case (Cons r rest)
  with userIds_put_voter [of uid d rest] show ?case by auto
qed

lemma cast_vote_keeps_unique:
  "distinct (map userId (voters post)) \<Longrightarrow> distinct (map userId (voters (cast_vote uid v post)))"
  by (cases v) (auto simp: cast_vote_def distinct_remove_voter distinct_put_voter)





text \<open>
  The scenario of the specification: a post with count 0 and no voters; the user votes up,
  retracts, votes down, votes up. The counts after the four requests are 1, 0, -1, 1 and
  the voter lists hold the one record, none, the one record, the one record.
\<close>

lemma scenario_counts:
  "map (\<lambda>db. map_option (\<lambda>post. (votes post, voters post)) (db ''p1''))
       (vote_trace example_store
          [(''p1'', ''u1'', Some Up), (''p1'', ''u1'', None), (''p1'', ''u1'', Some Down), (''p1'', ''u1'', Some Up)])
   = [Some (1, [\<lparr>userId = ''u1'', vote = Up\<rparr>]), Some (0, []),
      Some (- 1, [\<lparr>userId = ''u1'', vote = Down\<rparr>]), Some (1, [\<lparr>userId = ''u1'', vote = Up\<rparr>])]"
  by (simp add: example_store_def example_post_def vote_endpoint_def cast_vote_def
      recorded_def prior_value_def)

text \<open>
  C1: for every sequence of vote requests, the store after each request holds the post
  with a vote count equal to the sum of the values of its recorded voters, provided the
  post started so. The endpoint changes the voter list and the count in one step, so the
  stores of the trace are all the states there are.
\<close>

theorem vote_count_invariant:
  "count_agrees db pid \<Longrightarrow> list_all (\<lambda>db'. count_agrees db' pid) (vote_trace db requests)"
proof (induction requests arbitrary: db)
  case Nil
  show ?case by simp
next
  case (Cons r rest)
  obtain postId uid v where r: "r = (postId, uid, v)" by (cases r) auto
  show ?case
  proof (cases "vote_endpoint db postId uid v")
    case (Inl err)
    with Cons r show ?thesis by simp
  next
    case (Inr db')
    have "count_agrees db' pid" using Cons.prems Inr by (rule vote_endpoint_keeps_count)
    with Cons.IH [of db'] Inr r show ?thesis by simp
  qed
qed

theorem vote_count_invariant_witness:
  "count_agrees example_store ''p1''
   \<and> list_all (\<lambda>db'. count_agrees db' ''p1'')
        (vote_trace example_store
           [(''p1'', ''u1'', Some Up), (''p9'', ''u1'', Some Up), (''p1'', ''u2'', Some Down),
            (''p1'', ''u1'', None)])"
proof -
  have a: "count_agrees example_store ''p1''"
    by (simp add: count_agrees_def example_store_def example_post_def tally_def)
  from a vote_count_invariant [OF a] show ?thesis by (rule conjI)
qed

section \<open>Properties of the post list component\<close>

lemma fetchPosts_starts_with_list_request:
  "\<exists>rest. snd (fetchPosts env props st) = Request (GetPosts (posts_url props)) # rest"
  by (simp add: fetchPosts_def Let_def split: option.splits)

lemma fetchPosts_keeps_draft:
  "editingPost (fst (fetchPosts env props st)) = editingPost st
   \<and> editTitle (fst (fetchPosts env props st)) = editTitle st
   \<and> editContent (fst (fetchPosts env props st)) = editContent st"
  by (simp add: fetchPosts_def Let_def split: option.splits)

lemma fetchPosts_no_alert: "Alert msg \<notin> set (snd (fetchPosts env props st))"
  by (auto simp: fetchPosts_def Let_def split: option.splits)

lemma fetchPosts_stops_loading: "\<not> loading (fst (fetchPosts env props st))"
  by (simp add: fetchPosts_def Let_def split: option.splits)


text \<open>No fetch gives the key \<^verbatim>\<open>__proto__\<close> an entry.\<close>

lemma derive_votes_proto: "derive_votes uid data acc ''__proto__'' = acc ''__proto__''"
  by (induction data arbitrary: acc) (auto simp: assign_def split: option.splits)

lemma resolve_colors_proto: "resolve_colors lookup slugs acc ''__proto__'' = acc ''__proto__''"
  by (induction slugs arbitrary: acc) (auto simp: assign_def split: color_lookup.splits)



lemma resolve_colors_at:
  "resolve_colors lookup slugs acc slug =
     (if slug \<in> set slugs \<and> slug \<noteq> ''__proto__''
      then (case lookup slug of LookupColor color \<Rightarrow> color | LookupThrows \<Rightarrow> acc slug)
      else acc slug)"
  by (induction slugs arbitrary: acc) (auto simp: assign_def split: color_lookup.splits)

lemma set_truthy_slugs: "set (truthy_slugs xs) = {slug. Some slug \<in> set xs \<and> slug \<noteq> []}"
  by (induction xs rule: truthy_slugs.induct) auto

lemma set_uniqueDramas: "set (uniqueDramas data) = dramaSlug ` set data"
  by (simp add: uniqueDramas_def)

lemma distinct_uniqueDramas: "distinct (uniqueDramas data)"
  by (simp add: uniqueDramas_def)

text \<open>
  C2: whatever the response, the vote request that \<^verbatim>\<open>handleVote\<close> sends for a direction
  carries \<^verbatim>\<open>null\<close> when the vote the component holds for the post is that direction, and
  the direction otherwise (no vote held, or the opposite one).
\<close>

theorem handleVote_toggle_policy:
  "\<exists>rest. snd (handleVote env result props st postId d) =
     Request (PostVote postId (currentUser_id props)
       (if userVotes st postId = Some d then None else Some d)) # rest"
  by (simp add: handleVote_def newVote_def Let_def split: prod.splits)

theorem handleVote_toggle_policy_witness:
  "\<exists>rest. snd (handleVote (example_env (LookupColor None)) Rejected example_props
                 (initial_state\<lparr>userVotes := [''p1'' \<mapsto> Up]\<rparr>) ''p1'' Up) =
     Request (PostVote ''p1'' ''u1'' None) # rest"
  using handleVote_toggle_policy [of "example_env (LookupColor None)" Rejected example_props
      "initial_state\<lparr>userVotes := [''p1'' \<mapsto> Up]\<rparr>" "''p1''" Up]
  by (simp add: example_props_def)

text \<open>
  C3, as amended: \<^verbatim>\<open>handleVote\<close> fetches the list again exactly when the vote request
  responded with success, and then its state and its further effects are those of
  \<^verbatim>\<open>fetchPosts\<close>. When the request throws or responds with an error status, the component
  logs the error: after the vote request its only effect is the log line, no list request
  is issued, and the state is left as it was.
\<close>

theorem handleVote_refetch_only_when_ok:
  "((\<exists>url. Request (GetPosts url) \<in> set (snd (handleVote env result props st postId d)))
      = (result = Responded True))
   \<and> (if result = Responded True
       then Request (GetPosts (posts_url props)) \<in> set (snd (handleVote env result props st postId d))
            \<and> fst (handleVote env result props st postId d) = fst (fetchPosts env props st)
            \<and> tl (snd (handleVote env result props st postId d)) = snd (fetchPosts env props st)
       else fst (handleVote env result props st postId d) = st
            \<and> snd (handleVote env result props st postId d)
                = [Request (PostVote postId (currentUser_id props)
                              (if userVotes st postId = Some d then None else Some d)),
                   ConsoleError ''Error voting:''])"
proof (cases "result = Responded True")
  case True
  obtain rest where "snd (fetchPosts env props st) = Request (GetPosts (posts_url props)) # rest"
    using fetchPosts_starts_with_list_request by blast
  with True show ?thesis
    by (auto simp: handleVote_def Let_def split: prod.splits)
next
  case False
  then show ?thesis by (simp add: handleVote_def newVote_def Let_def)
qed

theorem handleVote_refetch_only_when_ok_witness:
  "(\<exists>url. Request (GetPosts url) \<in> set (snd (handleVote (example_env (LookupColor None))
        (Responded True) example_props initial_state ''p1'' Up)))
   \<and> fst (handleVote (example_env (LookupColor None)) Rejected example_props initial_state ''p1'' Up)
       = initial_state
   \<and> ConsoleError ''Error voting:'' \<in> set (snd (handleVote (example_env (LookupColor None)) Rejected
        example_props initial_state ''p1'' Up))"
  using handleVote_refetch_only_when_ok [of "example_env (LookupColor None)" "Responded True"
      example_props initial_state "''p1''" Up]
    handleVote_refetch_only_when_ok [of "example_env (LookupColor None)" Rejected
      example_props initial_state "''p1''" Up]
  by simp

text \<open>
  C3 as stated fails: a vote request answered with an error status is followed by a log
  line only, and no list request.
\<close>

theorem handleVote_failed_no_refetch_counterexample:
  "snd (handleVote (example_env (LookupColor None)) (Responded False) example_props initial_state ''p1'' Up)
     = [Request (PostVote ''p1'' ''u1'' (Some Up)), ConsoleError ''Error voting:'']"
  by (simp add: handleVote_def newVote_def Let_def example_props_def initial_state_def)

text \<open>
  C7: saving a draft. When the update responds with success the draft is cleared (no post
  being edited, empty title and content) and the list is fetched again; otherwise an alert
  is raised and the post being edited, the title and the content are as before.
\<close>

theorem handleSaveEdit_outcomes:
  assumes "handleSaveEdit env result props st postId = (st', effects)"
  shows "if result = Responded True
         then editingPost st' = None \<and> editTitle st' = [] \<and> editContent st' = []
              \<and> Request (GetPosts (posts_url props)) \<in> set effects
         else Alert ''Failed to update post'' \<in> set effects
              \<and> editingPost st' = editingPost st \<and> editTitle st' = editTitle st
              \<and> editContent st' = editContent st"
proof (cases "result = Responded True")
  case True
  let ?cleared = "st\<lparr>editingPost := None, editTitle := [], editContent := []\<rparr>"
  obtain rest where "snd (fetchPosts env props ?cleared) = Request (GetPosts (posts_url props)) # rest"
    using fetchPosts_starts_with_list_request by blast
  moreover note fetchPosts_keeps_draft [of env props ?cleared]
  ultimately show ?thesis using assms True
    by (auto simp: handleSaveEdit_def Let_def split: prod.splits)
next
  case False
  with assms show ?thesis by (auto simp: handleSaveEdit_def Let_def)
qed

theorem handleSaveEdit_outcomes_witness:
  "editingPost (fst (handleSaveEdit (example_env (LookupColor None)) (Responded True)
        example_props editing_state ''p1'')) = None
   \<and> Alert ''Failed to update post'' \<in> set (snd (handleSaveEdit (example_env (LookupColor None))
        (Responded False) example_props editing_state ''p1''))
   \<and> editTitle (fst (handleSaveEdit (example_env (LookupColor None)) (Responded False)
        example_props editing_state ''p1'')) = ''New title''"
proof -
  have ok: "handleSaveEdit (example_env (LookupColor None)) (Responded True) example_props editing_state ''p1''
      = (fst (handleSaveEdit (example_env (LookupColor None)) (Responded True) example_props editing_state ''p1''),
         snd (handleSaveEdit (example_env (LookupColor None)) (Responded True) example_props editing_state ''p1''))"
    by simp
  have failed: "handleSaveEdit (example_env (LookupColor None)) (Responded False) example_props editing_state ''p1''
      = (fst (handleSaveEdit (example_env (LookupColor None)) (Responded False) example_props editing_state ''p1''),
         snd (handleSaveEdit (example_env (LookupColor None)) (Responded False) example_props editing_state ''p1''))"
    by simp
  have title: "editTitle editing_state = ''New title''"
    by (simp add: editing_state_def)
  from handleSaveEdit_outcomes [OF ok] handleSaveEdit_outcomes [OF failed] title
  show ?thesis by simp
qed

text \<open>
  C4, as amended: in the mode \<^verbatim>\<open>all\<close>, when no color lookup throws, the fetched posts are
  stored and every community they reference has the color its own lookup returned, so a
  lookup that answers without a color leaves that one community without a color and the
  others with theirs; only a community whose slug is the property name \<^verbatim>\<open>__proto__\<close> gets
  no color whatever its lookup returns. When the lookup of some referenced community
  throws, the fetched posts are stored, and the color map and the vote map are left as
  they were before the fetch.
\<close>

theorem fetchPosts_colors:
  assumes "viewMode props = AllPosts" and "get_posts env (posts_url props) = Some data"
    and "fetchPosts env props st = (st', effects)"
  shows "if list_ex (\<lambda>post. case dramaSlug post of
                               None \<Rightarrow> False
                             | Some slug \<Rightarrow> slug \<noteq> [] \<and> get_membership env slug (currentUser_id props) = LookupThrows) data
         then posts st' = data \<and> dramaColors st' = dramaColors st \<and> userVotes st' = userVotes st
         else posts st' = data
              \<and> list_all (\<lambda>post. case dramaSlug post of
                               None \<Rightarrow> True
                             | Some slug \<Rightarrow> slug = [] \<or>
                                 (if slug = ''__proto__'' then dramaColors st' slug = None
                                  else get_membership env slug (currentUser_id props)
                                         = LookupColor (dramaColors st' slug))) data"
proof -
  let ?uid = "currentUser_id props"
  let ?slugs = "truthy_slugs (uniqueDramas data)"
  have slugs: "set ?slugs = {slug. \<exists>post \<in> set data. dramaSlug post = Some slug \<and> slug \<noteq> []}"
    unfolding set_truthy_slugs set_uniqueDramas by force
  have ex: "list_ex (\<lambda>slug. get_membership env slug ?uid = LookupThrows) ?slugs =
        list_ex (\<lambda>post. case dramaSlug post of
                               None \<Rightarrow> False
                             | Some slug \<Rightarrow> slug \<noteq> [] \<and> get_membership env slug ?uid = LookupThrows) data"
    unfolding list_ex_iff slugs by (auto split: option.splits)
  show ?thesis
  proof (cases "list_ex (\<lambda>slug. get_membership env slug ?uid = LookupThrows) ?slugs")
    case True
    with assms ex show ?thesis by (auto simp: fetchPosts_def Let_def)
  next
    case False
    then have nothrow: "\<And>slug. slug \<in> set ?slugs \<Longrightarrow> get_membership env slug ?uid \<noteq> LookupThrows"
      by (auto simp: list_ex_iff)
    from False assms have st': "posts st' = data"
      "dramaColors st' = resolve_colors (\<lambda>slug. get_membership env slug ?uid) ?slugs Map.empty"
      by (auto simp: fetchPosts_def Let_def)
    have proto: "dramaColors st' ''__proto__'' = None"
      by (simp add: st' resolve_colors_proto)
    have "get_membership env slug ?uid = LookupColor (dramaColors st' slug)"
      if "post \<in> set data" "dramaSlug post = Some slug" "slug \<noteq> []" "slug \<noteq> ''__proto__''" for post slug
    proof -
      from that have "slug \<in> set ?slugs" unfolding slugs by blast
      with nothrow [of slug] that(4) show ?thesis
        by (cases "get_membership env slug ?uid") (simp_all add: st' resolve_colors_at)
    qed
    with proto have "list_all (\<lambda>post. case dramaSlug post of
                               None \<Rightarrow> True
                             | Some slug \<Rightarrow> slug = [] \<or>
                                 (if slug = ''__proto__'' then dramaColors st' slug = None
                                  else get_membership env slug ?uid = LookupColor (dramaColors st' slug))) data"
      by (auto simp: list_all_iff split: option.splits)
    with False ex st' show ?thesis by simp
  qed
qed

theorem fetchPosts_colors_witness:
  "viewMode example_props = AllPosts
   \<and> get_posts (example_env (LookupColor None)) (posts_url example_props) = Some three_posts
   \<and> dramaColors (fst (fetchPosts (example_env (LookupColor None)) example_props initial_state)) ''a'' = Some (JStr ''red'')
   \<and> dramaColors (fst (fetchPosts (example_env (LookupColor None)) example_props initial_state)) ''b'' = None
   \<and> dramaColors (fst (fetchPosts (example_env (LookupColor None)) example_props initial_state)) ''c'' = Some (JStr ''blue'')"
proof -
  let ?env = "example_env (LookupColor None)"
  have a: "viewMode example_props = AllPosts"
    by (simp add: example_props_def)
  have b: "get_posts ?env (posts_url example_props) = Some three_posts"
    by (simp add: example_env_def)
  have c: "fetchPosts ?env example_props initial_state
      = (fst (fetchPosts ?env example_props initial_state), snd (fetchPosts ?env example_props initial_state))"
    by simp
  have uid: "currentUser_id example_props = ''u1''"
    by (simp add: example_props_def)
  have lookups: "get_membership ?env ''a'' ''u1'' = LookupColor (Some (JStr ''red''))"
    "get_membership ?env ''b'' ''u1'' = LookupColor None"
    "get_membership ?env ''c'' ''u1'' = LookupColor (Some (JStr ''blue''))"
    by (simp_all add: example_env_def lookup_b_def)
  from fetchPosts_colors [OF a b c]
  have "LookupColor (Some (JStr ''red'')) = LookupColor (dramaColors (fst (fetchPosts ?env example_props initial_state)) ''a'')
      \<and> LookupColor None = LookupColor (dramaColors (fst (fetchPosts ?env example_props initial_state)) ''b'')
      \<and> LookupColor (Some (JStr ''blue'')) = LookupColor (dramaColors (fst (fetchPosts ?env example_props initial_state)) ''c'')"
    by (simp add: uid lookups three_posts_def example_post_def)
  with a b show ?thesis by simp
qed

text \<open>
  C4 as stated fails: when the lookup of community \<^verbatim>\<open>b\<close> throws, community \<^verbatim>\<open>a\<close>, whose
  lookup returns a color, is left without one.
\<close>

theorem fetchPosts_one_lookup_throws_counterexample:
  "get_membership (example_env LookupThrows) ''a'' ''u1'' = LookupColor (Some (JStr ''red''))
   \<and> dramaColors (fst (fetchPosts (example_env LookupThrows) example_props initial_state)) ''a'' = None"
  by (simp add: fetchPosts_def Let_def example_env_def example_props_def initial_state_def
      three_posts_def example_post_def lookup_b_def posts_url_def uniqueDramas_def)

section \<open>Properties of the component and the endpoints together\<close>















end
